theory Spec2Isabelle
  imports Complex_Main
begin

section \<open>Data model (api/types.ts)\<close>

text \<open>
  JavaScript numbers are idealised as reals throughout. A thrown JavaScript
  error is a value of \<open>js_error\<close>; a function that may throw returns
  \<open>js_error + 'a\<close>, with \<open>Inl\<close> the thrown error.
\<close>

datatype js_error = Error string | SyntaxError string

fun message :: "js_error \<Rightarrow> string" where
  "message (Error m) = m"
| "message (SyntaxError m) = m"

datatype IntentType = creative_session | mix_feedback | performance_coaching | analytics_only

text \<open>
  A value as \<open>JSON.parse\<close> produces it. The list of a \<open>JObject\<close> holds
  the object's own properties, each key once.
\<close>

datatype json =
    JNull
  | JBool bool
  | JNumber real
  | JString string
  | JArray "json list"
  | JObject "(string \<times> json) list"

record SessionMetadata =
  session_id :: string
  user_id :: string
  intent :: IntentType
  daw :: "string option"
  key :: "string option"
  tempo :: "real option"
  emotional_goal :: "string option"
  references :: "string list"
  created_at :: string

record SessionState =
  metadata :: SessionMetadata
  active :: bool
  attributes :: "(string \<times> json) list"

text \<open>The fields of \<open>AudioFrame\<close> that \<open>pushAudioFrame\<close> fills in
  (\<open>rms\<close> and \<open>peak\<close> are optional and left out by the client).
  \<open>frame_session_id\<close> is the frame's \<open>session_id\<close>.\<close>

record AudioFrame =
  frame_session_id :: string
  frame_id :: string
  sample_rate :: real
  channels :: nat
  duration_ms :: real
  waveform_base64 :: string
  timestamp_ms :: real

text \<open>The argument of \<open>ensureSession\<close>; \<open>req_references\<close> is \<open>None\<close>
  when the caller left \<open>references\<close> undefined.\<close>

record SessionRequest =
  req_user_id :: string
  req_intent :: IntentType
  req_daw :: "string option"
  req_key :: "string option"
  req_tempo :: "real option"
  req_emotional_goal :: "string option"
  req_references :: "string list option"

section \<open>The provider's state and the browser around it (context/SessionContext.tsx)\<close>

datatype ReadyState = CONNECTING | OPEN | CLOSING | CLOSED

text \<open>
  A socket created by \<open>connectStream\<close>: \<open>ws_session\<close> is the
  \<open>sessionId\<close> its handlers have captured, \<open>sent\<close> the data the client
  has sent on it. A socket is named by its position in \<open>sockets\<close>.
\<close>

record WebSocket =
  ws_session :: string
  readyState :: ReadyState
  sent :: "string list"

text \<open>A timeout the browser holds: the handle \<open>window.setTimeout\<close> returned,
  the session id its callback \<open>() => connectStream(sessionId)\<close> has captured, and
  the delay in milliseconds.\<close>

record Timer =
  timer_id :: nat
  timer_session :: string
  timer_delay :: nat

datatype Effect =
    ApiCreateSession SessionRequest
  | ApiCloseSession string
  | ApiSubmitAudio string AudioFrame
  | ToastSuccess string
  | ToastError string
  | ConsoleError string

text \<open>
  \<open>session\<close>, \<open>isLoading\<close>, \<open>events\<close> are the React state of
  \<open>SessionProvider\<close>; \<open>socketRef\<close>, \<open>reconnectTimer\<close>,
  \<open>sessionIdRef\<close> its refs; \<open>sockets\<close>, \<open>timers\<close> (the pending
  timeouts), \<open>timerCount\<close> (handles issued so far) and \<open>intervals\<close>
  (periods of the registered intervals) belong to the browser; \<open>effects\<close> records
  remote calls, toasts and console output in order.
\<close>

record World =
  session :: "SessionState option"
  isLoading :: bool
  events :: "json list"
  socketRef :: "nat option"
  reconnectTimer :: "nat option"
  sessionIdRef :: "string option"
  sockets :: "WebSocket list"
  timers :: "Timer list"
  timerCount :: nat
  intervals :: "nat list"
  effects :: "Effect list"

definition initial :: World where
  "initial = \<lparr>session = None, isLoading = False, events = [], socketRef = None,
     reconnectTimer = None, sessionIdRef = None, sockets = [], timers = [], timerCount = 0,
     intervals = [], effects = []\<rparr>"

subsection \<open>isSessionEvent\<close>

text \<open>\<open>typeof\<close> of a property read; \<open>None\<close> is \<open>undefined\<close>.\<close>

fun typeof :: "json option \<Rightarrow> string" where
  "typeof None = ''undefined''"
| "typeof (Some JNull) = ''object''"
| "typeof (Some (JBool b)) = ''boolean''"
| "typeof (Some (JNumber n)) = ''number''"
| "typeof (Some (JString s)) = ''string''"
| "typeof (Some (JArray xs)) = ''object''"
| "typeof (Some (JObject kvs)) = ''object''"

text \<open>Reading property \<open>k\<close> of a non-null object: an array has none of the
  names read here.\<close>

fun get_prop :: "json \<Rightarrow> string \<Rightarrow> json option" where
  "get_prop (JObject kvs) k = map_of kvs k"
| "get_prop v k = None"

definition isSessionEvent :: "json \<Rightarrow> bool" where
  "isSessionEvent val =
     (if typeof (Some val) \<noteq> ''object'' then False
      else if val = JNull then False
      else
        typeof (get_prop val ''session_id'') = ''string'' \<and>
        typeof (get_prop val ''source'') = ''string'' \<and>
        typeof (get_prop val ''target'') = ''string'' \<and>
        typeof (get_prop val ''created_at'') = ''string'' \<and>
        typeof (get_prop val ''payload'') = ''object'' \<and>
        get_prop val ''payload'' \<noteq> Some JNull)"

subsection \<open>disconnectStream, connectStream and the socket handlers\<close>

text \<open>\<open>socket.close()\<close>: a socket that is connecting or open starts closing; the
  close event comes later. On a closing or closed socket the call does nothing.\<close>

definition ws_close :: "nat \<Rightarrow> WebSocket list \<Rightarrow> WebSocket list" where
  "ws_close i ss =
     (if i < length ss \<and> (readyState (ss ! i) = CONNECTING \<or> readyState (ss ! i) = OPEN)
      then ss[i := (ss ! i)\<lparr>readyState := CLOSING\<rparr>] else ss)"

definition clearTimeout :: "nat \<Rightarrow> Timer list \<Rightarrow> Timer list" where
  "clearTimeout t ts = filter (\<lambda>x. timer_id x \<noteq> t) ts"

definition disconnectStream :: "World \<Rightarrow> World" where
  "disconnectStream w =
     (let w1 = (case socketRef w of
                  Some i \<Rightarrow> w\<lparr>sockets := ws_close i (sockets w), socketRef := None\<rparr>
                | None \<Rightarrow> w);
          w2 = (case reconnectTimer w1 of
                  Some t \<Rightarrow> w1\<lparr>timers := clearTimeout t (timers w1), reconnectTimer := None\<rparr>
                | None \<Rightarrow> w1)
      in w2\<lparr>events := []\<rparr>)"

definition connectStream :: "string \<Rightarrow> World \<Rightarrow> World" where
  "connectStream sessionId w =
     w\<lparr>sockets := sockets w @ [\<lparr>ws_session = sessionId, readyState = CONNECTING, sent = []\<rparr>],
       socketRef := Some (length (sockets w))\<rparr>"

definition console_error :: "string \<Rightarrow> World \<Rightarrow> World" where
  "console_error m w = w\<lparr>effects := effects w @ [ConsoleError m]\<rparr>"

text \<open>The body of the \<open>try\<close> in \<open>socket.onmessage\<close>. \<open>JSON_parse\<close> is the
  platform's parser, \<open>Inl\<close> when it throws.\<close>

definition onmessage_try :: "(string \<Rightarrow> js_error + json) \<Rightarrow> string \<Rightarrow> World \<Rightarrow> js_error + World" where
  "onmessage_try JSON_parse data w =
     (case JSON_parse data of
        Inl e \<Rightarrow> Inl e
      | Inr parsed \<Rightarrow>
          if isSessionEvent parsed
          then Inr (w\<lparr>events := take 100 (parsed # events w)\<rparr>)
          else Inr (console_error ''Received malformed session event payload'' w))"

text \<open>\<open>socket.onmessage\<close>: the \<open>catch\<close> logs whatever the body threw.
  \<open>Inl\<close> would be an exception leaving the handler.\<close>

definition onmessage :: "(string \<Rightarrow> js_error + json) \<Rightarrow> string \<Rightarrow> World \<Rightarrow> js_error + World" where
  "onmessage JSON_parse data w =
     (case onmessage_try JSON_parse data w of
        Inl e \<Rightarrow> Inr (console_error ''Failed to parse websocket event'' w)
      | Inr w' \<Rightarrow> Inr w')"

text \<open>\<open>window.setTimeout(() => connectStream(sessionId), delay)\<close>: the browser
  issues the next handle and holds the timeout.\<close>

definition setTimeout :: "string \<Rightarrow> nat \<Rightarrow> World \<Rightarrow> nat \<times> World" where
  "setTimeout sessionId delay w =
     (let t = Suc (timerCount w)
      in (t, w\<lparr>timers := timers w @ [\<lparr>timer_id = t, timer_session = sessionId, timer_delay = delay\<rparr>],
               timerCount := t\<rparr>))"

text \<open>\<open>socket.onclose\<close> of a socket whose handlers captured \<open>sessionId\<close>.\<close>

definition onclose :: "string \<Rightarrow> World \<Rightarrow> World" where
  "onclose sessionId w =
     (let w1 = w\<lparr>socketRef := None\<rparr>
      in if sessionIdRef w1 = Some sessionId
         then (case setTimeout sessionId 1500 w1 of (t, w2) \<Rightarrow> w2\<lparr>reconnectTimer := Some t\<rparr>)
         else w1)"

definition onerror :: "World \<Rightarrow> World" where
  "onerror w = console_error ''WebSocket error'' w"

subsection \<open>ensureSession, closeSession, pushAudioFrame\<close>

definition toast_success :: "string \<Rightarrow> World \<Rightarrow> World" where
  "toast_success m w = w\<lparr>effects := effects w @ [ToastSuccess m]\<rparr>"

definition toast_error :: "string \<Rightarrow> World \<Rightarrow> World" where
  "toast_error m w = w\<lparr>effects := effects w @ [ToastError m]\<rparr>"

text \<open>The test \<open>!socketRef.current || socketRef.current.readyState !== WebSocket.OPEN\<close>.\<close>

definition stream_not_open :: "World \<Rightarrow> bool" where
  "stream_not_open w =
     (case socketRef w of None \<Rightarrow> True | Some i \<Rightarrow> readyState (sockets w ! i) \<noteq> OPEN)"

text \<open>
  A remote call together with the code after its \<open>await\<close> is one step. The answer
  of the remote service is an argument: \<open>created\<close> is what
  \<open>api.createSession\<close> resolves to (\<open>Inr\<close>) or rejects with (\<open>Inl\<close>) if it
  is called; likewise \<open>close_result\<close> and \<open>submitted\<close> below. The first component
  of the result is what the returned promise settles to.

  The function object \<open>ensureSession\<close> belongs to one render: \<open>useCallback\<close>
  makes a new one when \<open>session\<close> has changed, and each tests the \<open>session\<close>
  of the render that made it. That captured value is the argument \<open>rendered\<close>; the
  refs and the setters are the provider's own, whichever render the function is from. A
  call through the context value of the latest render has \<open>rendered = session w\<close>.
  \<open>closeSession\<close> and \<open>pushAudioFrame\<close> are given for a call through the context
  value of the latest render.
\<close>

definition ensureSession ::
  "SessionState option \<Rightarrow> (js_error + SessionState) \<Rightarrow> SessionRequest \<Rightarrow> World
     \<Rightarrow> (js_error + SessionState) \<times> World" where
  "ensureSession rendered created payload w =
     (case rendered of
        Some s \<Rightarrow>
          (let w1 = w\<lparr>sessionIdRef := Some (session_id (metadata s))\<rparr>;
               w2 = (if stream_not_open w1 then connectStream (session_id (metadata s)) w1 else w1)
           in (Inr s, w2))
      | None \<Rightarrow>
          (let w1 = w\<lparr>isLoading := True\<rparr>;
               request = payload\<lparr>req_references :=
                 Some (case req_references payload of None \<Rightarrow> [] | Some r \<Rightarrow> r)\<rparr>;
               w2 = w1\<lparr>effects := effects w1 @ [ApiCreateSession request]\<rparr>
           in (case created of
                 Inr state \<Rightarrow>
                   (let w3 = w2\<lparr>session := Some state\<rparr>;
                        w4 = w3\<lparr>sessionIdRef := Some (session_id (metadata state))\<rparr>;
                        w5 = connectStream (session_id (metadata state)) w4;
                        w6 = toast_success ''Session initialized'' w5
                    in (Inr state, w6\<lparr>isLoading := False\<rparr>))
               | Inl error \<Rightarrow>
                   (Inl error, (toast_error (message error) w2)\<lparr>isLoading := False\<rparr>))))"

definition closeSession ::
  "(js_error + SessionState) \<Rightarrow> World \<Rightarrow> (js_error + unit) \<times> World" where
  "closeSession close_result w =
     (case session w of
        None \<Rightarrow> (Inr (), w)
      | Some s \<Rightarrow>
          (let w1 = w\<lparr>isLoading := True\<rparr>;
               w2 = w1\<lparr>effects := effects w1 @ [ApiCloseSession (session_id (metadata s))]\<rparr>
           in (case close_result of
                 Inr closed_state \<Rightarrow>
                   (let w3 = w2\<lparr>session := Some closed_state\<rparr>;
                        w4 = w3\<lparr>sessionIdRef := None\<rparr>;
                        w5 = disconnectStream w4;
                        w6 = toast_success ''Session closed'' w5
                    in (Inr (), w6\<lparr>isLoading := False\<rparr>))
               | Inl error \<Rightarrow>
                   (Inl error, (toast_error (message error) w2)\<lparr>isLoading := False\<rparr>))))"

text \<open>
  \<open>nanoid32\<close> is the result of \<open>nanoid(32)\<close>, \<open>waveform\<close> the base64 text
  \<open>btoa\<close> gives for the buffer's bytes, \<open>now\<close> the reading of
  \<open>performance.now()\<close>; \<open>buffer\<close> is the \<open>Float32Array\<close> as the list of its
  samples. For \<open>sampleRate = 0\<close> JavaScript yields \<open>Infinity\<close> or \<open>NaN\<close>, which
  the reals do not have.
\<close>

definition pushAudioFrame ::
  "string \<Rightarrow> string \<Rightarrow> real \<Rightarrow> (js_error + AudioFrame) \<Rightarrow> real list \<Rightarrow> real \<Rightarrow> World
     \<Rightarrow> (js_error + AudioFrame) \<times> World" where
  "pushAudioFrame nanoid32 waveform now submitted buffer sampleRate w =
     (case session w of
        None \<Rightarrow> (Inl (Error ''Session not initialized''), w)
      | Some s \<Rightarrow>
          (let frameId = ''frame_'' @ nanoid32;
               durationMs = (real (length buffer) / sampleRate) * 1000;
               frame = \<lparr>frame_session_id = session_id (metadata s), frame_id = frameId,
                         sample_rate = sampleRate, channels = 1, duration_ms = durationMs,
                         waveform_base64 = waveform, timestamp_ms = now\<rparr>
           in (submitted,
               w\<lparr>effects := effects w @ [ApiSubmitAudio (session_id (metadata s)) frame]\<rparr>)))"

subsection \<open>Runs of the provider\<close>

text \<open>
  What can happen to a mounted provider: a call of one of its three operations, an event
  of one of its sockets (named by position: it opens, delivers a message, closes or
  reports an error), a pending timeout firing, or the unmount clean-up. An event that
  cannot happen in the current state (a socket that does not exist, a message on a socket
  that is not open, a close event on a closed socket, a timeout that is not pending)
  leaves the state as it is.

  \<open>EnsureSession\<close> is a call of \<open>ensureSession\<close> through the context value of
  the latest render; \<open>EnsureSessionVia rendered\<close> is a call through a function object
  that captured \<open>rendered\<close>, as a caller that kept the function of an earlier render
  makes. Any value of \<open>rendered\<close> is allowed, those of the renders that happened
  among them.
\<close>

datatype Action =
    EnsureSession "js_error + SessionState" SessionRequest
  | EnsureSessionVia "SessionState option" "js_error + SessionState" SessionRequest
  | CloseSession "js_error + SessionState"
  | PushAudioFrame string string real "js_error + AudioFrame" "real list" real
  | SocketOpen nat
  | SocketMessage nat string
  | SocketClose nat
  | SocketError nat
  | TimerFire nat
  | Unmount

definition set_readyState :: "nat \<Rightarrow> ReadyState \<Rightarrow> World \<Rightarrow> World" where
  "set_readyState i r w = w\<lparr>sockets := (sockets w)[i := (sockets w ! i)\<lparr>readyState := r\<rparr>]\<rparr>"

fun step :: "(string \<Rightarrow> js_error + json) \<Rightarrow> Action \<Rightarrow> World \<Rightarrow> World" where
  "step JSON_parse (EnsureSession created payload) w =
     snd (ensureSession (session w) created payload w)"
| "step JSON_parse (EnsureSessionVia rendered created payload) w =
     snd (ensureSession rendered created payload w)"
| "step JSON_parse (CloseSession close_result) w = snd (closeSession close_result w)"
| "step JSON_parse (PushAudioFrame nanoid32 waveform now submitted buffer sampleRate) w =
     snd (pushAudioFrame nanoid32 waveform now submitted buffer sampleRate w)"
| "step JSON_parse (SocketOpen i) w =
     (if i < length (sockets w) \<and> readyState (sockets w ! i) = CONNECTING
      then set_readyState i OPEN w else w)"
| "step JSON_parse (SocketMessage i data) w =
     (if i < length (sockets w) \<and> readyState (sockets w ! i) = OPEN
      then (case onmessage JSON_parse data w of Inr w' \<Rightarrow> w' | Inl e \<Rightarrow> w) else w)"
| "step JSON_parse (SocketClose i) w =
     (if i < length (sockets w) \<and> readyState (sockets w ! i) \<noteq> CLOSED
      then onclose (ws_session (sockets w ! i)) (set_readyState i CLOSED w) else w)"
| "step JSON_parse (SocketError i) w = (if i < length (sockets w) then onerror w else w)"
| "step JSON_parse (TimerFire t) w =
     (case find (\<lambda>x. timer_id x = t) (timers w) of
        None \<Rightarrow> w
      | Some tm \<Rightarrow> connectStream (timer_session tm) (w\<lparr>timers := clearTimeout t (timers w)\<rparr>))"
| "step JSON_parse Unmount w = disconnectStream w"

fun run :: "(string \<Rightarrow> js_error + json) \<Rightarrow> Action list \<Rightarrow> World \<Rightarrow> World" where
  "run JSON_parse [] w = w"
| "run JSON_parse (a # as) w = run JSON_parse as (step JSON_parse a w)"

text \<open>The actions that call \<open>ensureSession\<close> or \<open>closeSession\<close>.\<close>

fun is_session_call :: "Action \<Rightarrow> bool" where
  "is_session_call (EnsureSession created payload) = True"
| "is_session_call (EnsureSessionVia rendered created payload) = True"
| "is_session_call (CloseSession close_result) = True"
| "is_session_call a = False"

text \<open>Nothing has been sent on any socket of the provider and no interval is
  registered.\<close>

definition silent :: "World \<Rightarrow> bool" where
  "silent w \<longleftrightarrow> intervals w = [] \<and> list_all (\<lambda>s. sent s = []) (sockets w)"

text \<open>The socket \<open>socketRef\<close> names exists.\<close>

definition socketRef_valid :: "World \<Rightarrow> bool" where
  "socketRef_valid w = (case socketRef w of None \<Rightarrow> True | Some i \<Rightarrow> i < length (sockets w))"

section \<open>Live capture (useLiveAudioCapture)\<close>

text \<open>
  What the hook has asked of the microphone and the audio graph, in order. The numbers
  name the media tracks, the audio context, the source node and the processor node.
  \<open>GetUserMedia tracks\<close> is a \<open>getUserMedia\<close> that resolved with a stream of these
  tracks, which are live from then on until stopped; a call that was rejected or threw
  obtained nothing and leaves no entry.
\<close>

datatype CaptureEffect =
    GetUserMedia "nat list"
  | NewAudioContext nat
  | CreateMediaStreamSource nat
  | CreateScriptProcessor nat
  | SourceConnect nat nat
  | ProcessorConnect nat nat
  | ProcessorDisconnect nat
  | SourceDisconnect nat
  | ContextClose nat
  | TrackStop nat

text \<open>The hook's state and refs; \<open>streamRef\<close> holds the tracks
  \<open>getTracks()\<close> returns for the stream; \<open>calls\<close> records the calls made,
  \<open>notices\<close> the toasts and console output.\<close>

record Capture =
  isCapturing :: bool
  audioContextRef :: "nat option"
  processorRef :: "nat option"
  sourceRef :: "nat option"
  streamRef :: "nat list option"
  calls :: "CaptureEffect list"
  notices :: "Effect list"

definition idle :: Capture where
  "idle = \<lparr>isCapturing = False, audioContextRef = None, processorRef = None, sourceRef = None,
     streamRef = None, calls = [], notices = []\<rparr>"

definition stopCapture :: "Capture \<Rightarrow> Capture" where
  "stopCapture c =
     (let c1 = (case processorRef c of
                  Some p \<Rightarrow> c\<lparr>calls := calls c @ [ProcessorDisconnect p]\<rparr> | None \<Rightarrow> c);
          c2 = (case sourceRef c1 of
                  Some s \<Rightarrow> c1\<lparr>calls := calls c1 @ [SourceDisconnect s]\<rparr> | None \<Rightarrow> c1);
          c3 = (case audioContextRef c2 of
                  Some a \<Rightarrow> c2\<lparr>calls := calls c2 @ [ContextClose a]\<rparr> | None \<Rightarrow> c2);
          c4 = (case streamRef c3 of
                  Some tracks \<Rightarrow> c3\<lparr>calls := calls c3 @ map TrackStop tracks\<rparr> | None \<Rightarrow> c3)
      in c4\<lparr>audioContextRef := None, processorRef := None, sourceRef := None,
            streamRef := None, isCapturing := False\<rparr>)"

text \<open>The \<open>catch\<close> block of \<open>startCapture\<close>.\<close>

definition startCapture_catch :: "Capture \<Rightarrow> Capture" where
  "startCapture_catch c =
     stopCapture (c\<lparr>notices := notices c @
       [ConsoleError ''Failed to start live capture'', ToastError ''Unable to access microphone.'']\<rparr>)"

text \<open>
  \<open>rendered\<close> and \<open>capturing\<close> are the \<open>session\<close> and \<open>isCapturing\<close> the
  function object has captured (\<open>useCallback\<close>, deps \<open>session\<close>, \<open>isCapturing\<close>,
  \<open>pushAudioFrame\<close>, \<open>stopCapture\<close>). The platform's answers are arguments, each
  consulted only if the call is reached: \<open>stream\<close> is what \<open>getUserMedia\<close> resolves
  to (the stream's tracks) or rejects with, \<open>context\<close>, \<open>source\<close> and
  \<open>processor\<close> what \<open>new AudioContext\<close>, \<open>createMediaStreamSource\<close> and
  \<open>createScriptProcessor\<close> return or throw. The refs are assigned after the graph is
  connected, at the end of the \<open>try\<close>.
\<close>

definition startCapture ::
  "SessionState option \<Rightarrow> bool \<Rightarrow> (js_error + nat list) \<Rightarrow> (js_error + nat) \<Rightarrow> (js_error + nat)
     \<Rightarrow> (js_error + nat) \<Rightarrow> Capture \<Rightarrow> Capture" where
  "startCapture rendered capturing stream context source processor c =
     (case rendered of
        None \<Rightarrow>
          c\<lparr>notices := notices c @ [ToastError ''Session must be active before capturing audio.'']\<rparr>
      | Some s \<Rightarrow>
          if capturing then c
          else
            (case stream of
               Inl error \<Rightarrow> startCapture_catch c
             | Inr tracks \<Rightarrow>
                 (let c1 = c\<lparr>calls := calls c @ [GetUserMedia tracks]\<rparr>
                  in case context of
                       Inl error \<Rightarrow> startCapture_catch c1
                     | Inr a \<Rightarrow>
                         (let c2 = c1\<lparr>calls := calls c1 @ [NewAudioContext a]\<rparr>
                          in case source of
                               Inl error \<Rightarrow> startCapture_catch c2
                             | Inr src \<Rightarrow>
                                 (let c3 = c2\<lparr>calls := calls c2 @ [CreateMediaStreamSource src]\<rparr>
                                  in case processor of
                                       Inl error \<Rightarrow> startCapture_catch c3
                                     | Inr p \<Rightarrow>
                                         (let c4 = c3\<lparr>calls := calls c3 @
                                                [CreateScriptProcessor p, SourceConnect src p,
                                                 ProcessorConnect p a]\<rparr>;
                                              c5 = c4\<lparr>audioContextRef := Some a,
                                                     processorRef := Some p, sourceRef := Some src,
                                                     streamRef := Some tracks\<rparr>;
                                              c6 = c5\<lparr>isCapturing := True\<rparr>
                                          in c6\<lparr>notices := notices c6 @
                                                [ToastSuccess ''Live capture started'']\<rparr>))))))"

text \<open>The tracks that are live after a sequence of calls: obtained and not stopped
  since.\<close>

fun live :: "nat list \<Rightarrow> CaptureEffect list \<Rightarrow> nat list" where
  "live l [] = l"
| "live l (GetUserMedia tracks # cs) = live (l @ tracks) cs"
| "live l (TrackStop t # cs) = live (removeAll t l) cs"
| "live l (e # cs) = live l cs"

definition live_tracks :: "Capture \<Rightarrow> nat list" where
  "live_tracks c = live [] (calls c)"

text \<open>\<open>session?.active\<close> as a condition: \<open>undefined\<close> counts as false.\<close>

definition session_active :: "SessionState option \<Rightarrow> bool" where
  "session_active sess = (case sess of None \<Rightarrow> False | Some s \<Rightarrow> active s)"

text \<open>The effect that runs when \<open>session\<close> or \<open>isCapturing\<close> has changed. The
  hook has no other effect: nothing runs when the component using it unmounts.\<close>

definition autoStopEffect :: "SessionState option \<Rightarrow> Capture \<Rightarrow> Capture" where
  "autoStopEffect sess c = (if \<not> session_active sess \<and> isCapturing c then stopCapture c else c)"

text \<open>\<open>createScriptProcessor(4096, 1, 1)\<close> and
  \<open>new AudioContext({ sampleRate: 22_050 })\<close>.\<close>

definition bufferSize :: nat where
  "bufferSize = 4096"

definition contextSampleRate :: real where
  "contextSampleRate = 22050"

text \<open>\<open>processor.onaudioprocess\<close>: the block is copied and pushed; a rejected
  push is reported and nothing else happens.\<close>

definition onaudioprocess ::
  "string \<Rightarrow> string \<Rightarrow> real \<Rightarrow> (js_error + AudioFrame) \<Rightarrow> real list \<Rightarrow> real \<Rightarrow> World \<Rightarrow> World" where
  "onaudioprocess nanoid32 waveform now submitted input sampleRate w =
     (let copy = input
      in (case pushAudioFrame nanoid32 waveform now submitted copy sampleRate w of
            (Inl error, w') \<Rightarrow>
              toast_error ''Live audio frame could not be ingested.''
                (console_error ''Failed to push live audio frame'' w')
          | (Inr frame, w') \<Rightarrow> w'))"

section \<open>The consciousness stream (ConsciousnessVisualizer)\<close>

datatype ConnectionStatus = connecting | connected | disconnected

text \<open>\<open>pingInterval\<close> is the period of the interval the effect registered, while
  it is registered.\<close>

record Visualizer =
  connectionStatus :: ConnectionStatus
  ws :: WebSocket
  pingInterval :: "nat option"

definition visualizer_effect :: "string \<Rightarrow> Visualizer" where
  "visualizer_effect sessionId =
     \<lparr>connectionStatus = connecting,
      ws = \<lparr>ws_session = sessionId, readyState = CONNECTING, sent = []\<rparr>,
      pingInterval = Some 30000\<rparr>"

text \<open>The socket opens: the browser sets \<open>readyState\<close> and \<open>ws.onopen\<close> runs.\<close>

definition visualizer_onopen :: "Visualizer \<Rightarrow> Visualizer" where
  "visualizer_onopen v =
     (if readyState (ws v) = CONNECTING
      then v\<lparr>ws := (ws v)\<lparr>readyState := OPEN\<rparr>, connectionStatus := connected\<rparr>
      else v)"

text \<open>The callback of the interval; it runs only while the interval is registered.\<close>

definition ping_tick :: "Visualizer \<Rightarrow> Visualizer" where
  "ping_tick v =
     (case pingInterval v of
        None \<Rightarrow> v
      | Some period \<Rightarrow>
          if readyState (ws v) = OPEN
          then v\<lparr>ws := (ws v)\<lparr>sent := sent (ws v) @ [''ping'']\<rparr>\<rparr>
          else v)"

definition visualizer_cleanup :: "Visualizer \<Rightarrow> Visualizer" where
  "visualizer_cleanup v =
     (let v1 = v\<lparr>pingInterval := None\<rparr>
      in v1\<lparr>ws := (if readyState (ws v1) = CONNECTING \<or> readyState (ws v1) = OPEN
                     then (ws v1)\<lparr>readyState := CLOSING\<rparr> else ws v1)\<rparr>)"

section \<open>Example values\<close>

definition example_metadata :: "string \<Rightarrow> SessionMetadata" where
  "example_metadata sid =
     \<lparr>session_id = sid, user_id = ''artist_01'', intent = creative_session, daw = None,
      key = None, tempo = None, emotional_goal = None, references = [],
      created_at = ''2025-11-07T00:00:00Z''\<rparr>"

definition example_session :: "string \<Rightarrow> bool \<Rightarrow> SessionState" where
  "example_session sid a = \<lparr>metadata = example_metadata sid, active = a, attributes = []\<rparr>"

definition example_request :: SessionRequest where
  "example_request =
     \<lparr>req_user_id = ''artist_01'', req_intent = creative_session, req_daw = None,
      req_key = None, req_tempo = None, req_emotional_goal = None, req_references = Some []\<rparr>"

definition example_event :: "string \<Rightarrow> json" where
  "example_event src =
     JObject [(''session_id'', JString ''A''), (''source'', JString src),
              (''target'', JString ''broadcast''), (''payload'', JObject []),
              (''created_at'', JString ''2025-11-07T00:00:01Z'')]"

text \<open>An event without \<open>session_id\<close>.\<close>

definition example_malformed :: json where
  "example_malformed =
     JObject [(''source'', JString ''sound_understanding''), (''target'', JString ''broadcast''),
              (''payload'', JObject []), (''created_at'', JString ''2025-11-07T00:00:01Z'')]"

text \<open>A stand-in for \<open>JSON.parse\<close> on three messages.\<close>

definition example_parse :: "string \<Rightarrow> js_error + json" where
  "example_parse data =
     (if data = ''good'' then Inr (example_event ''sound_understanding'')
      else if data = ''malformed'' then Inr example_malformed
      else Inl (SyntaxError ''Unexpected end of JSON input''))"

definition example_ack :: AudioFrame where
  "example_ack =
     \<lparr>frame_session_id = ''A'', frame_id = ''frame_x'', sample_rate = 22050, channels = 1,
      duration_ms = 4096 / 22050 * 1000, waveform_base64 = ''AAAA'', timestamp_ms = 0\<rparr>"

text \<open>
  A session is created, its socket drops, \<open>ensureSession\<close> is called again while the
  reconnect is pending, the second socket drops too, and the session is closed.
\<close>

definition stale_reconnect_run :: "Action list" where
  "stale_reconnect_run =
     [EnsureSession (Inr (example_session ''A'' True)) example_request,
      SocketClose 0,
      EnsureSession (Inr (example_session ''B'' True)) example_request,
      SocketClose 1,
      CloseSession (Inr (example_session ''A'' False))]"

section \<open>Properties of the event feed\<close>

lemma onmessage_returns: "\<exists>w'. onmessage JSON_parse data w = Inr w'"
  by (simp add: onmessage_def onmessage_try_def split: sum.splits)

lemma onmessage_valid:
  assumes "JSON_parse data = Inr ev" and "isSessionEvent ev"
  shows "onmessage JSON_parse data w = Inr (w\<lparr>events := take 100 (ev # events w)\<rparr>)"
  using assms by (simp add: onmessage_def onmessage_try_def)

lemma onmessage_unparsable:
  assumes "JSON_parse data = Inl e"
  shows "onmessage JSON_parse data w = Inr (console_error ''Failed to parse websocket event'' w)"
  using assms by (simp add: onmessage_def onmessage_try_def)

lemma onmessage_malformed:
  assumes "JSON_parse data = Inr v" and "\<not> isSessionEvent v"
  shows "onmessage JSON_parse data w =
           Inr (console_error ''Received malformed session event payload'' w)"
  using assms by (simp add: onmessage_def onmessage_try_def)

lemma onmessage_feed_bound:
  assumes "length (events w) \<le> 100" and "onmessage JSON_parse data w = Inr w'"
  shows "length (events w') \<le> 100"
  using assms
  by (auto simp: onmessage_def onmessage_try_def console_error_def split: sum.splits if_splits)

lemma events_disconnectStream: "events (disconnectStream w) = []"
  by (simp add: disconnectStream_def Let_def split: option.splits)

lemma events_connectStream: "events (connectStream sid w) = events w"
  by (simp add: connectStream_def)

lemma events_ensureSession: "events (snd (ensureSession rendered created payload w)) = events w"
  by (simp add: ensureSession_def Let_def connectStream_def toast_success_def toast_error_def
      split: option.splits sum.splits)

lemma events_closeSession:
  "length (events (snd (closeSession close_result w))) \<le> length (events w)"
  by (simp add: closeSession_def Let_def events_disconnectStream toast_success_def
      toast_error_def split: option.splits sum.splits)

lemma events_pushAudioFrame:
  "events (snd (pushAudioFrame nanoid32 waveform now submitted buffer sampleRate w)) = events w"
  by (simp add: pushAudioFrame_def Let_def split: option.splits)

lemma events_onclose: "events (onclose sid w) = events w"
  by (simp add: onclose_def Let_def setTimeout_def split: prod.splits)

lemma step_feed_bound:
  assumes "length (events w) \<le> 100"
  shows "length (events (step JSON_parse a w)) \<le> 100"
proof (cases a)
  case (SocketMessage i data)
  obtain w' where "onmessage JSON_parse data w = Inr w'"
    using onmessage_returns by blast
  with assms SocketMessage show ?thesis
    using onmessage_feed_bound[of w JSON_parse data w'] by simp
next
  case (CloseSession close_result)
  with assms show ?thesis
    using events_closeSession[of close_result w] by simp
qed (use assms in \<open>simp_all add: events_ensureSession events_pushAudioFrame events_onclose
      events_connectStream events_disconnectStream set_readyState_def onerror_def
      console_error_def split: option.splits\<close>)

lemma run_feed_bound:
  "length (events w) \<le> 100 \<Longrightarrow> length (events (run JSON_parse acts w)) \<le> 100"
  by (induction acts arbitrary: w) (simp_all add: step_feed_bound)

lemma isSessionEvent_example: "isSessionEvent (example_event src)"
  by (simp add: isSessionEvent_def example_event_def)

lemma not_isSessionEvent_malformed: "\<not> isSessionEvent example_malformed"
  by (simp add: isSessionEvent_def example_malformed_def)

text \<open>
  Claim C4. Whatever happens to the provider from its initial state, the event feed
  holds at most 100 entries. A message that parses to a valid event puts that event at
  position 0 and keeps the 99 newest of the entries before it; nothing else changes, so
  the entry that falls off the end is dropped without a trace.
\<close>

theorem event_feed_at_most_100_newest_first:
  "length (events (run JSON_parse acts initial)) \<le> 100 \<and>
   (JSON_parse data = Inr ev \<and> isSessionEvent ev \<longrightarrow>
      onmessage JSON_parse data w = Inr (w\<lparr>events := take 100 (ev # events w)\<rparr>) \<and>
      take 100 (ev # events w) ! 0 = ev \<and>
      take 100 (ev # events w) = ev # take 99 (events w))"
proof -
  have "length (events initial) \<le> 100"
    by (simp add: initial_def)
  then have bound: "length (events (run JSON_parse acts initial)) \<le> 100"
    by (rule run_feed_bound)
  have shape: "take 100 (ev # events w) = ev # take 99 (events w)"
    by (simp add: take_Cons')
  from bound shape show ?thesis
    by (simp add: onmessage_valid)
qed

theorem event_feed_at_most_100_witness:
  "example_parse ''good'' = Inr (example_event ''sound_understanding'') \<and>
   isSessionEvent (example_event ''sound_understanding'') \<and>
   onmessage example_parse ''good'' (initial\<lparr>events := replicate 100 (example_event ''x'')\<rparr>) =
     Inr (initial\<lparr>events := example_event ''sound_understanding'' # replicate 99 (example_event ''x'')\<rparr>) \<and>
   length (events (run example_parse
     [EnsureSession (Inr (example_session ''A'' True)) example_request, SocketOpen 0,
      SocketMessage 0 ''good'', SocketMessage 0 ''good''] initial)) \<le> 100"
  using event_feed_at_most_100_newest_first
    [of example_parse
        "[EnsureSession (Inr (example_session ''A'' True)) example_request, SocketOpen 0,
          SocketMessage 0 ''good'', SocketMessage 0 ''good'']"
        "''good''" "example_event ''sound_understanding''"
        "initial\<lparr>events := replicate 100 (example_event ''x'')\<rparr>"]
  by (simp add: example_parse_def isSessionEvent_example)

lemma isSessionEvent_fields:
  "isSessionEvent v \<longleftrightarrow>
     typeof (get_prop v ''session_id'') = ''string'' \<and>
     typeof (get_prop v ''source'') = ''string'' \<and>
     typeof (get_prop v ''target'') = ''string'' \<and>
     typeof (get_prop v ''created_at'') = ''string'' \<and>
     typeof (get_prop v ''payload'') = ''object'' \<and>
     get_prop v ''payload'' \<noteq> Some JNull"
  by (cases v) (simp_all add: isSessionEvent_def)

text \<open>
  Claim C5. A message that does not parse, or parses to a value that fails
  \<open>isSessionEvent\<close>, is discarded: the handler returns normally, one console error
  is logged and nothing else changes, the feed included; a well-formed message handled
  next is at position 0 of the feed. A value in which \<open>session_id\<close>,
  \<open>source\<close>, \<open>target\<close> or \<open>created_at\<close> is missing or not a string,
  or \<open>payload\<close> is missing, not an object or null, fails \<open>isSessionEvent\<close>.
\<close>

theorem malformed_message_discarded_feed_survives:
  "(JSON_parse bad = Inl e \<or> (JSON_parse bad = Inr v \<and> \<not> isSessionEvent v) \<longrightarrow>
      (\<exists>m. onmessage JSON_parse bad w = Inr (w\<lparr>effects := effects w @ [ConsoleError m]\<rparr>) \<and>
           (JSON_parse good = Inr ev \<and> isSessionEvent ev \<longrightarrow>
              (\<exists>w2. onmessage JSON_parse good (w\<lparr>effects := effects w @ [ConsoleError m]\<rparr>) = Inr w2 \<and>
                    events w2 ! 0 = ev)))) \<and>
   (typeof (get_prop u ''session_id'') \<noteq> ''string'' \<or>
    typeof (get_prop u ''source'') \<noteq> ''string'' \<or>
    typeof (get_prop u ''target'') \<noteq> ''string'' \<or>
    typeof (get_prop u ''created_at'') \<noteq> ''string'' \<or>
    typeof (get_prop u ''payload'') \<noteq> ''object'' \<or>
    get_prop u ''payload'' = Some JNull \<longrightarrow> \<not> isSessionEvent u)"
proof -
  have discard: "\<exists>m. onmessage JSON_parse bad w = Inr (w\<lparr>effects := effects w @ [ConsoleError m]\<rparr>)"
    if "JSON_parse bad = Inl e \<or> (JSON_parse bad = Inr v \<and> \<not> isSessionEvent v)"
    using that
    by (auto simp: onmessage_unparsable onmessage_malformed console_error_def)
  have next_one: "\<exists>w2. onmessage JSON_parse good w1 = Inr w2 \<and> events w2 ! 0 = ev"
    if "JSON_parse good = Inr ev" and "isSessionEvent ev" for w1
    using that by (simp add: onmessage_valid)
  have fields: "typeof (get_prop u ''session_id'') \<noteq> ''string'' \<or>
    typeof (get_prop u ''source'') \<noteq> ''string'' \<or>
    typeof (get_prop u ''target'') \<noteq> ''string'' \<or>
    typeof (get_prop u ''created_at'') \<noteq> ''string'' \<or>
    typeof (get_prop u ''payload'') \<noteq> ''object'' \<or>
    get_prop u ''payload'' = Some JNull \<longrightarrow> \<not> isSessionEvent u"
    using isSessionEvent_fields[of u] by blast
  from discard next_one fields show ?thesis
    by blast
qed

theorem malformed_message_discarded_witness:
  "example_parse ''malformed'' = Inr example_malformed \<and> \<not> isSessionEvent example_malformed \<and>
   typeof (get_prop example_malformed ''session_id'') \<noteq> ''string'' \<and>
   onmessage example_parse ''malformed'' initial =
     Inr (initial\<lparr>effects := [ConsoleError ''Received malformed session event payload'']\<rparr>) \<and>
   onmessage example_parse ''{'' initial =
     Inr (initial\<lparr>effects := [ConsoleError ''Failed to parse websocket event'']\<rparr>) \<and>
   example_parse ''good'' = Inr (example_event ''sound_understanding'') \<and>
   isSessionEvent (example_event ''sound_understanding'') \<and>
   (\<exists>w2. onmessage example_parse ''good''
           (initial\<lparr>effects := [ConsoleError ''Received malformed session event payload'']\<rparr>) = Inr w2 \<and>
         events w2 ! 0 = example_event ''sound_understanding'')"
  using malformed_message_discarded_feed_survives
    [of example_parse "''malformed''" "SyntaxError []" example_malformed initial "''good''"
        "example_event ''sound_understanding''" example_malformed]
  by (simp add: example_parse_def isSessionEvent_example not_isSessionEvent_malformed
      onmessage_def onmessage_try_def console_error_def initial_def)
    (simp add: example_malformed_def)

section \<open>Properties of ensureSession\<close>

lemma ensureSession_existing:
  "ensureSession (Some s) created payload w =
     (Inr s,
      if stream_not_open w
      then connectStream (session_id (metadata s)) (w\<lparr>sessionIdRef := Some (session_id (metadata s))\<rparr>)
      else w\<lparr>sessionIdRef := Some (session_id (metadata s))\<rparr>)"
  by (simp add: ensureSession_def Let_def stream_not_open_def split: option.splits)

lemma ensureSession_created:
  "ensureSession None (Inr state) payload w =
     (Inr state,
      (connectStream (session_id (metadata state))
         (w\<lparr>session := Some state, sessionIdRef := Some (session_id (metadata state))\<rparr>))
        \<lparr>effects := effects w @
           [ApiCreateSession (payload\<lparr>req_references :=
              Some (case req_references payload of None \<Rightarrow> [] | Some r \<Rightarrow> r)\<rparr>),
            ToastSuccess ''Session initialized''],
          isLoading := False\<rparr>)"
  by (simp add: ensureSession_def Let_def toast_success_def connectStream_def)

lemma session_ensureSession_result:
  "fst (ensureSession (session w) created payload w) = Inr s \<Longrightarrow>
   session (snd (ensureSession (session w) created payload w)) = Some s"
  by (auto simp: ensureSession_def Let_def connectStream_def toast_success_def
      split: option.splits sum.splits if_splits)

lemma session_disconnectStream: "session (disconnectStream w) = session w"
  by (simp add: disconnectStream_def Let_def split: option.splits)

lemma session_onmessage: "onmessage JSON_parse data w = Inr w' \<Longrightarrow> session w' = session w"
  by (auto simp: onmessage_def onmessage_try_def console_error_def split: sum.splits if_splits)

lemma session_onclose: "session (onclose sid w) = session w"
  by (simp add: onclose_def Let_def setTimeout_def split: prod.splits)

lemma session_pushAudioFrame:
  "session (snd (pushAudioFrame nanoid32 waveform now submitted buffer sampleRate w)) = session w"
  by (simp add: pushAudioFrame_def Let_def split: option.splits)

lemma step_keeps_session:
  assumes "session w = Some s" and "\<not> is_session_call a"
  shows "session (step JSON_parse a w) = Some s"
proof (cases a)
  case (SocketMessage i data)
  obtain w' where "onmessage JSON_parse data w = Inr w'"
    using onmessage_returns by blast
  with assms SocketMessage show ?thesis
    using session_onmessage[of JSON_parse data w w'] by simp
qed (use assms in \<open>simp_all add: session_pushAudioFrame session_onclose session_disconnectStream
      connectStream_def set_readyState_def onerror_def console_error_def split: option.splits\<close>)

lemma run_keeps_session:
  "session w = Some s \<Longrightarrow> \<not> list_ex is_session_call acts \<Longrightarrow>
   session (run JSON_parse acts w) = Some s"
  by (induction acts arbitrary: w) (simp_all add: step_keeps_session)

text \<open>
  Claim C6, as amended. A call of \<open>ensureSession\<close> through the function object of a
  render in which a session is stored returns that session, leaves the stored session as
  it is, makes no remote call (the recorded effects are unchanged) and opens a new socket
  exactly when the referenced socket is missing or not open. Hence of two consecutive
  calls, each made through the context value of the latest render, with socket events,
  timeouts and frame pushes but no \<open>closeSession\<close> in between, the second returns the
  session the first one returned, so the same \<open>session_id\<close>.
\<close>

theorem ensureSession_idempotent_through_latest_render:
  "fst (ensureSession (Some s) created payload w) = Inr s \<and>
   session (snd (ensureSession (Some s) created payload w)) = session w \<and>
   effects (snd (ensureSession (Some s) created payload w)) = effects w \<and>
   sockets (snd (ensureSession (Some s) created payload w)) =
     (if stream_not_open w
      then sockets w @ [\<lparr>ws_session = session_id (metadata s), readyState = CONNECTING, sent = []\<rparr>]
      else sockets w) \<and>
   (fst (ensureSession (session w) created_first payload_first w) = Inr returned \<and>
    \<not> list_ex is_session_call acts \<longrightarrow>
      fst (ensureSession
             (session (run JSON_parse acts (snd (ensureSession (session w) created_first payload_first w))))
             created_second payload_second
             (run JSON_parse acts (snd (ensureSession (session w) created_first payload_first w)))) = Inr returned)"
proof -
  have first: "fst (ensureSession (Some s) created payload w) = Inr s \<and>
      session (snd (ensureSession (Some s) created payload w)) = session w \<and>
      effects (snd (ensureSession (Some s) created payload w)) = effects w \<and>
      sockets (snd (ensureSession (Some s) created payload w)) =
        (if stream_not_open w
         then sockets w @ [\<lparr>ws_session = session_id (metadata s), readyState = CONNECTING, sent = []\<rparr>]
         else sockets w)"
    by (simp add: ensureSession_existing connectStream_def)
  have second: "fst (ensureSession
             (session (run JSON_parse acts (snd (ensureSession (session w) created_first payload_first w))))
             created_second payload_second
             (run JSON_parse acts (snd (ensureSession (session w) created_first payload_first w)))) = Inr returned"
    if r: "fst (ensureSession (session w) created_first payload_first w) = Inr returned"
      and nc: "\<not> list_ex is_session_call acts"
  proof -
    from r have "session (snd (ensureSession (session w) created_first payload_first w)) = Some returned"
      by (rule session_ensureSession_result)
    then have "session (run JSON_parse acts (snd (ensureSession (session w) created_first payload_first w))) =
        Some returned"
      using nc by (rule run_keeps_session)
    then show ?thesis
      by (simp add: ensureSession_existing)
  qed
  from first second show ?thesis
    by blast
qed

theorem ensureSession_idempotent_through_latest_render_witness:
  "fst (ensureSession (session initial) (Inr (example_session ''A'' True)) example_request initial) =
     Inr (example_session ''A'' True) \<and>
   \<not> list_ex is_session_call [SocketOpen 0, SocketMessage 0 ''good'', SocketClose 0] \<and>
   fst (ensureSession
         (session (run example_parse [SocketOpen 0, SocketMessage 0 ''good'', SocketClose 0]
            (snd (ensureSession (session initial) (Inr (example_session ''A'' True))
                    example_request initial))))
         (Inr (example_session ''B'' True)) example_request
         (run example_parse [SocketOpen 0, SocketMessage 0 ''good'', SocketClose 0]
            (snd (ensureSession (session initial) (Inr (example_session ''A'' True))
                    example_request initial)))) =
     Inr (example_session ''A'' True) \<and>
   effects (snd (ensureSession (Some (example_session ''A'' True))
                   (Inr (example_session ''B'' True)) example_request
                   (initial\<lparr>session := Some (example_session ''A'' True)\<rparr>))) = []"
  using ensureSession_idempotent_through_latest_render
    [where s = "example_session ''A'' True" and created = "Inr (example_session ''B'' True)"
       and payload = example_request
       and w = "initial\<lparr>session := Some (example_session ''A'' True)\<rparr>"
       and created_first = "Inr (example_session ''A'' True)" and payload_first = example_request
       and returned = "example_session ''A'' True" and acts = "[]"
       and created_second = "Inr (example_session ''B'' True)" and payload_second = example_request
       and JSON_parse = example_parse]
    ensureSession_idempotent_through_latest_render
    [where s = "example_session ''A'' True" and created = "Inr (example_session ''B'' True)"
       and payload = example_request and w = initial
       and created_first = "Inr (example_session ''A'' True)" and payload_first = example_request
       and returned = "example_session ''A'' True"
       and acts = "[SocketOpen 0, SocketMessage 0 ''good'', SocketClose 0]"
       and created_second = "Inr (example_session ''B'' True)" and payload_second = example_request
       and JSON_parse = example_parse]
  by (simp add: initial_def ensureSession_def Let_def connectStream_def toast_success_def)

theorem ensureSession_twice_through_one_function_counterexample:
  "fst (ensureSession None (Inr (example_session ''A'' True)) example_request initial) =
     Inr (example_session ''A'' True) \<and>
   session (snd (ensureSession None (Inr (example_session ''A'' True)) example_request initial)) =
     Some (example_session ''A'' True) \<and>
   fst (ensureSession None (Inr (example_session ''B'' True)) example_request
          (snd (ensureSession None (Inr (example_session ''A'' True)) example_request initial))) =
     Inr (example_session ''B'' True) \<and>
   session_id (metadata (example_session ''B'' True)) \<noteq>
     session_id (metadata (example_session ''A'' True)) \<and>
   effects (snd (ensureSession None (Inr (example_session ''B'' True)) example_request
          (snd (ensureSession None (Inr (example_session ''A'' True)) example_request initial)))) =
     [ApiCreateSession example_request, ToastSuccess ''Session initialized'',
      ApiCreateSession example_request, ToastSuccess ''Session initialized'']"
  by (simp add: initial_def ensureSession_created connectStream_def example_session_def
      example_metadata_def example_request_def)

section \<open>Properties of closeSession and pushAudioFrame\<close>

lemma closeSession_rejected:
  assumes "session w = Some s"
  shows "closeSession (Inl e) w =
           (Inl e, w\<lparr>effects := effects w @ [ApiCloseSession (session_id (metadata s)),
                                               ToastError (message e)],
                      isLoading := False\<rparr>)"
  using assms by (simp add: closeSession_def Let_def toast_error_def)

lemma closeSession_resolved:
  assumes "session w = Some s"
  shows "closeSession (Inr closed_state) w =
           (Inr (),
            (disconnectStream (w\<lparr>session := Some closed_state, sessionIdRef := None\<rparr>))
              \<lparr>effects := effects w @ [ApiCloseSession (session_id (metadata s)),
                                       ToastSuccess ''Session closed''],
                isLoading := False\<rparr>)"
  using assms
  by (simp add: closeSession_def Let_def toast_success_def disconnectStream_def
      split: option.splits)

lemma disconnectStream_fields:
  "socketRef (disconnectStream w) = None"
  "reconnectTimer (disconnectStream w) = None"
  "sessionIdRef (disconnectStream w) = sessionIdRef w"
  "effects (disconnectStream w) = effects w"
  "sockets (disconnectStream w) =
     (case socketRef w of Some i \<Rightarrow> ws_close i (sockets w) | None \<Rightarrow> sockets w)"
  "timers (disconnectStream w) =
     (case reconnectTimer w of Some t \<Rightarrow> clearTimeout t (timers w) | None \<Rightarrow> timers w)"
  by (simp_all add: disconnectStream_def Let_def split: option.splits)

lemma pushAudioFrame_stored:
  assumes "session w = Some s"
  shows "pushAudioFrame nanoid32 waveform now submitted buffer sampleRate w =
           (submitted,
            w\<lparr>effects := effects w @
               [ApiSubmitAudio (session_id (metadata s))
                  \<lparr>frame_session_id = session_id (metadata s), frame_id = ''frame_'' @ nanoid32,
                   sample_rate = sampleRate, channels = 1,
                   duration_ms = real (length buffer) / sampleRate * 1000,
                   waveform_base64 = waveform, timestamp_ms = now\<rparr>]\<rparr>)"
  using assms by (simp add: pushAudioFrame_def Let_def)

text \<open>
  Claim C1, as amended. \<open>pushAudioFrame\<close> fails with the error
  "Session not initialized", leaving everything as it was, when no session state is
  stored. A successful \<open>closeSession\<close> stores the closed state the remote service
  returned, so a \<open>pushAudioFrame\<close> after it is not rejected by the client: it
  makes the remote submit call for the closed session's id, with a frame carrying that
  id, and settles to whatever the remote service answers.
\<close>

theorem pushAudioFrame_rejects_only_without_stored_session:
  "(session w = None \<longrightarrow>
      pushAudioFrame nanoid32 waveform now submitted buffer sampleRate w =
        (Inl (Error ''Session not initialized''), w)) \<and>
   (session w = Some s \<longrightarrow>
      fst (closeSession (Inr closed_state) w) = Inr () \<and>
      session (snd (closeSession (Inr closed_state) w)) = Some closed_state \<and>
      fst (pushAudioFrame nanoid32 waveform now submitted buffer sampleRate
             (snd (closeSession (Inr closed_state) w))) = submitted \<and>
      (\<exists>frame.
         frame_session_id frame = session_id (metadata closed_state) \<and>
         effects (snd (pushAudioFrame nanoid32 waveform now submitted buffer sampleRate
                         (snd (closeSession (Inr closed_state) w)))) =
           effects (snd (closeSession (Inr closed_state) w)) @
             [ApiSubmitAudio (session_id (metadata closed_state)) frame]))"
proof -
  have none: "pushAudioFrame nanoid32 waveform now submitted buffer sampleRate w =
        (Inl (Error ''Session not initialized''), w)" if "session w = None"
    using that by (simp add: pushAudioFrame_def)
  have some: "fst (closeSession (Inr closed_state) w) = Inr () \<and>
      session (snd (closeSession (Inr closed_state) w)) = Some closed_state \<and>
      fst (pushAudioFrame nanoid32 waveform now submitted buffer sampleRate
             (snd (closeSession (Inr closed_state) w))) = submitted \<and>
      (\<exists>frame.
         frame_session_id frame = session_id (metadata closed_state) \<and>
         effects (snd (pushAudioFrame nanoid32 waveform now submitted buffer sampleRate
                         (snd (closeSession (Inr closed_state) w)))) =
           effects (snd (closeSession (Inr closed_state) w)) @
             [ApiSubmitAudio (session_id (metadata closed_state)) frame])" if s: "session w = Some s"
  proof -
    have stored: "session (snd (closeSession (Inr closed_state) w)) = Some closed_state"
      using s by (simp add: closeSession_resolved session_disconnectStream)
    show ?thesis
      using s stored by (simp add: pushAudioFrame_stored) (simp add: closeSession_resolved)
  qed
  from none some show ?thesis
    by blast
qed

theorem pushAudioFrame_rejects_only_without_stored_session_witness:
  "session initial = None \<and>
   pushAudioFrame ''x'' ''AAAA'' 0 (Inr example_ack) (replicate 4096 0) 22050 initial =
     (Inl (Error ''Session not initialized''), initial) \<and>
   session (initial\<lparr>session := Some (example_session ''A'' True)\<rparr>) =
     Some (example_session ''A'' True) \<and>
   fst (pushAudioFrame ''x'' ''AAAA'' 0 (Inl (Error ''session closed'')) (replicate 4096 0) 22050
         (snd (closeSession (Inr (example_session ''A'' False))
                 (initial\<lparr>session := Some (example_session ''A'' True)\<rparr>)))) =
     Inl (Error ''session closed'')"
  using pushAudioFrame_rejects_only_without_stored_session
    [of initial "''x''" "''AAAA''" 0 "Inr example_ack" "replicate 4096 0" 22050]
    pushAudioFrame_rejects_only_without_stored_session
    [of "initial\<lparr>session := Some (example_session ''A'' True)\<rparr>" "''x''" "''AAAA''" 0
        "Inl (Error ''session closed'')" "replicate 4096 0" 22050 "example_session ''A'' True"
        "example_session ''A'' False"]
  by (simp add: initial_def)

theorem pushAudioFrame_after_close_counterexample:
  "fst (pushAudioFrame ''x'' ''AAAA'' 0 (Inr example_ack) (replicate 4096 0) 22050
         (run example_parse
            [EnsureSession (Inr (example_session ''A'' True)) example_request,
             CloseSession (Inr (example_session ''A'' False))] initial)) = Inr example_ack \<and>
   last (effects (snd (pushAudioFrame ''x'' ''AAAA'' 0 (Inr example_ack) (replicate 4096 0) 22050
         (run example_parse
            [EnsureSession (Inr (example_session ''A'' True)) example_request,
             CloseSession (Inr (example_session ''A'' False))] initial)))) =
     ApiSubmitAudio ''A''
       \<lparr>frame_session_id = ''A'', frame_id = ''frame_x'', sample_rate = 22050, channels = 1,
        duration_ms = 4096 / 22050 * 1000, waveform_base64 = ''AAAA'', timestamp_ms = 0\<rparr>"
  by (simp add: initial_def ensureSession_def closeSession_def pushAudioFrame_def Let_def
      connectStream_def toast_success_def stream_not_open_def disconnectStream_def ws_close_def
      example_session_def example_metadata_def)

text \<open>
  Claim C2, as amended. With a session stored, a \<open>closeSession\<close> whose remote call
  is rejected fails with that error and tears nothing down: apart from the recorded call,
  the error toast and \<open>isLoading\<close> being false, the state is as before, the socket,
  the reconnect timer and the feed included. When the remote call succeeds, the closed
  state is stored, \<open>sessionIdRef\<close> is cleared, the referenced socket is closed, the
  referenced reconnect timer is cancelled and the feed is emptied.
\<close>

theorem closeSession_failure_tears_nothing_down:
  "session w = Some s \<longrightarrow>
     closeSession (Inl e) w =
       (Inl e, w\<lparr>effects := effects w @ [ApiCloseSession (session_id (metadata s)),
                                           ToastError (message e)],
                  isLoading := False\<rparr>) \<and>
     fst (closeSession (Inr closed_state) w) = Inr () \<and>
     session (snd (closeSession (Inr closed_state) w)) = Some closed_state \<and>
     sessionIdRef (snd (closeSession (Inr closed_state) w)) = None \<and>
     socketRef (snd (closeSession (Inr closed_state) w)) = None \<and>
     reconnectTimer (snd (closeSession (Inr closed_state) w)) = None \<and>
     events (snd (closeSession (Inr closed_state) w)) = [] \<and>
     sockets (snd (closeSession (Inr closed_state) w)) =
       (case socketRef w of Some i \<Rightarrow> ws_close i (sockets w) | None \<Rightarrow> sockets w) \<and>
     timers (snd (closeSession (Inr closed_state) w)) =
       (case reconnectTimer w of Some t \<Rightarrow> clearTimeout t (timers w) | None \<Rightarrow> timers w)"
  by (simp add: closeSession_rejected closeSession_resolved disconnectStream_fields
      events_disconnectStream session_disconnectStream split: option.splits)

theorem closeSession_failure_tears_nothing_down_witness:
  "session (initial\<lparr>session := Some (example_session ''A'' True), socketRef := Some 0,
              sockets := [\<lparr>ws_session = ''A'', readyState = OPEN, sent = []\<rparr>]\<rparr>) =
     Some (example_session ''A'' True) \<and>
   sockets (snd (closeSession (Inl (Error ''boom''))
     (initial\<lparr>session := Some (example_session ''A'' True), socketRef := Some 0,
              sockets := [\<lparr>ws_session = ''A'', readyState = OPEN, sent = []\<rparr>]\<rparr>))) =
     [\<lparr>ws_session = ''A'', readyState = OPEN, sent = []\<rparr>] \<and>
   sockets (snd (closeSession (Inr (example_session ''A'' False))
     (initial\<lparr>session := Some (example_session ''A'' True), socketRef := Some 0,
              sockets := [\<lparr>ws_session = ''A'', readyState = OPEN, sent = []\<rparr>]\<rparr>))) =
     [\<lparr>ws_session = ''A'', readyState = CLOSING, sent = []\<rparr>]"
  using closeSession_failure_tears_nothing_down
    [of "initial\<lparr>session := Some (example_session ''A'' True), socketRef := Some 0,
              sockets := [\<lparr>ws_session = ''A'', readyState = OPEN, sent = []\<rparr>]\<rparr>"
        "example_session ''A'' True" "Error ''boom''" "example_session ''A'' False"]
  by (simp add: initial_def ws_close_def)

theorem closeSession_failure_counterexample:
  "fst (closeSession (Inl (Error ''boom''))
     (run example_parse
        [EnsureSession (Inr (example_session ''A'' True)) example_request, SocketClose 0,
         EnsureSession (Inr (example_session ''A'' True)) example_request, SocketOpen 1]
        initial)) = Inl (Error ''boom'') \<and>
   socketRef (snd (closeSession (Inl (Error ''boom''))
     (run example_parse
        [EnsureSession (Inr (example_session ''A'' True)) example_request, SocketClose 0,
         EnsureSession (Inr (example_session ''A'' True)) example_request, SocketOpen 1]
        initial))) = Some 1 \<and>
   sockets (snd (closeSession (Inl (Error ''boom''))
     (run example_parse
        [EnsureSession (Inr (example_session ''A'' True)) example_request, SocketClose 0,
         EnsureSession (Inr (example_session ''A'' True)) example_request, SocketOpen 1]
        initial))) ! 1 = \<lparr>ws_session = ''A'', readyState = OPEN, sent = []\<rparr> \<and>
   reconnectTimer (snd (closeSession (Inl (Error ''boom''))
     (run example_parse
        [EnsureSession (Inr (example_session ''A'' True)) example_request, SocketClose 0,
         EnsureSession (Inr (example_session ''A'' True)) example_request, SocketOpen 1]
        initial))) = Some 1 \<and>
   timers (snd (closeSession (Inl (Error ''boom''))
     (run example_parse
        [EnsureSession (Inr (example_session ''A'' True)) example_request, SocketClose 0,
         EnsureSession (Inr (example_session ''A'' True)) example_request, SocketOpen 1]
        initial))) = [\<lparr>timer_id = 1, timer_session = ''A'', timer_delay = 1500\<rparr>]"
  by (simp add: initial_def ensureSession_def closeSession_def Let_def
      connectStream_def toast_success_def toast_error_def stream_not_open_def onclose_def
      setTimeout_def set_readyState_def example_session_def example_metadata_def)

section \<open>The reference to the socket\<close>

text \<open>In every run \<open>socketRef\<close> is empty or names a socket that exists, so the reads
  \<open>sockets w ! i\<close> of the model are reads of a socket.\<close>

lemma socketRef_valid_connectStream: "socketRef_valid (connectStream sid w)"
  by (simp add: socketRef_valid_def connectStream_def)

lemma socketRef_valid_disconnectStream: "socketRef_valid (disconnectStream w)"
  by (simp add: socketRef_valid_def disconnectStream_fields)

lemma socketRef_valid_onclose: "socketRef_valid (onclose sid w)"
  by (simp add: socketRef_valid_def onclose_def Let_def setTimeout_def split: prod.splits)

lemma socketRef_valid_ensureSession:
  "socketRef_valid w \<Longrightarrow> socketRef_valid (snd (ensureSession rendered created payload w))"
  by (auto simp: socketRef_valid_def ensureSession_def Let_def connectStream_def
      toast_success_def toast_error_def split: option.splits sum.splits)

lemma socketRef_valid_closeSession:
  "socketRef_valid w \<Longrightarrow> socketRef_valid (snd (closeSession close_result w))"
  by (auto simp: socketRef_valid_def closeSession_def Let_def toast_success_def toast_error_def
      disconnectStream_fields split: option.splits sum.splits)

lemma socketRef_valid_onmessage:
  "socketRef_valid w \<Longrightarrow> onmessage JSON_parse data w = Inr w' \<Longrightarrow> socketRef_valid w'"
  by (auto simp: socketRef_valid_def onmessage_def onmessage_try_def console_error_def
      split: sum.splits if_splits option.splits)

lemma socketRef_valid_step:
  assumes "socketRef_valid w"
  shows "socketRef_valid (step JSON_parse a w)"
proof (cases a)
  case (SocketMessage i data)
  obtain w' where "onmessage JSON_parse data w = Inr w'"
    using onmessage_returns by blast
  with assms SocketMessage show ?thesis
    using socketRef_valid_onmessage[of w JSON_parse data w'] by simp
next
  case (SocketOpen i)
  with assms show ?thesis
    by (simp add: socketRef_valid_def set_readyState_def split: option.splits)
next
  case (SocketError i)
  with assms show ?thesis
    by (simp add: socketRef_valid_def onerror_def console_error_def split: option.splits)
next
  case (PushAudioFrame nanoid32 waveform now submitted buffer sampleRate)
  with assms show ?thesis
    by (simp add: socketRef_valid_def pushAudioFrame_def Let_def split: option.splits)
qed (use assms in \<open>simp_all add: socketRef_valid_ensureSession socketRef_valid_closeSession
      socketRef_valid_onclose socketRef_valid_connectStream socketRef_valid_disconnectStream
      split: option.splits\<close>)

lemma socketRef_valid_run:
  "socketRef_valid w \<Longrightarrow> socketRef_valid (run JSON_parse acts w)"
  by (induction acts arbitrary: w) (simp_all add: socketRef_valid_step)

lemma socketRef_names_a_socket:
  "socketRef (run JSON_parse acts initial) = Some i \<Longrightarrow>
   i < length (sockets (run JSON_parse acts initial))"
  using socketRef_valid_run[of initial JSON_parse acts]
  by (simp add: socketRef_valid_def initial_def)

section \<open>Properties of the session lifecycle\<close>

lemma effects_onclose: "effects (onclose sid w) = effects w"
  by (simp add: onclose_def Let_def setTimeout_def split: prod.splits)




section \<open>Properties of the reconnect\<close>

lemma onclose_schedules_reconnect:
  assumes "sessionIdRef w = Some sid"
  shows "onclose sid w =
           w\<lparr>socketRef := None,
             timers := timers w @
               [\<lparr>timer_id = Suc (timerCount w), timer_session = sid, timer_delay = 1500\<rparr>],
             timerCount := Suc (timerCount w),
             reconnectTimer := Some (Suc (timerCount w))\<rparr>"
  using assms by (simp add: onclose_def Let_def setTimeout_def)

lemma onclose_terminal:
  assumes "sessionIdRef w \<noteq> Some sid"
  shows "onclose sid w = w\<lparr>socketRef := None\<rparr>"
  using assms by (simp add: onclose_def Let_def)

text \<open>
  When a socket closes, a reconnect for its session is scheduled with a delay of 1500 ms
  exactly when \<open>sessionIdRef\<close> still holds that session id; otherwise the close only
  empties \<open>socketRef\<close>.
\<close>

theorem reconnect_scheduled_only_for_current_session:
  "(sessionIdRef w = Some sid \<longrightarrow>
      onclose sid w =
        w\<lparr>socketRef := None,
          timers := timers w @
            [\<lparr>timer_id = Suc (timerCount w), timer_session = sid, timer_delay = 1500\<rparr>],
          timerCount := Suc (timerCount w),
          reconnectTimer := Some (Suc (timerCount w))\<rparr>) \<and>
   (sessionIdRef w \<noteq> Some sid \<longrightarrow> onclose sid w = w\<lparr>socketRef := None\<rparr>)"
  by (simp add: onclose_schedules_reconnect onclose_terminal)

theorem reconnect_scheduled_only_for_current_session_witness:
  "sessionIdRef (initial\<lparr>sessionIdRef := Some ''A''\<rparr>) = Some ''A'' \<and>
   timers (onclose ''A'' (initial\<lparr>sessionIdRef := Some ''A''\<rparr>)) =
     [\<lparr>timer_id = 1, timer_session = ''A'', timer_delay = 1500\<rparr>] \<and>
   sessionIdRef (initial\<lparr>sessionIdRef := Some ''B''\<rparr>) \<noteq> Some ''A'' \<and>
   timers (onclose ''A'' (initial\<lparr>sessionIdRef := Some ''B''\<rparr>)) = [] \<and>
   sessionIdRef initial \<noteq> Some ''A'' \<and>
   timers (onclose ''A'' initial) = []"
  using reconnect_scheduled_only_for_current_session
    [of "initial\<lparr>sessionIdRef := Some ''A''\<rparr>" "''A''"]
    reconnect_scheduled_only_for_current_session
    [of "initial\<lparr>sessionIdRef := Some ''B''\<rparr>" "''A''"]
    reconnect_scheduled_only_for_current_session [of initial "''A''"]
  by (simp add: initial_def)

text \<open>
  \<open>disconnectStream\<close> empties the feed and both refs, closes the referenced socket
  and cancels the timeout whose handle \<open>reconnectTimer\<close> held.
\<close>

theorem disconnectStream_closes_cancels_and_clears:
  "events (disconnectStream w) = [] \<and>
   socketRef (disconnectStream w) = None \<and>
   reconnectTimer (disconnectStream w) = None \<and>
   (reconnectTimer w = Some t \<longrightarrow> t \<notin> timer_id ` set (timers (disconnectStream w))) \<and>
   (socketRef w = Some i \<and> i < length (sockets w) \<and> readyState (sockets w ! i) = OPEN \<longrightarrow>
      readyState (sockets (disconnectStream w) ! i) = CLOSING)"
  by (auto simp: events_disconnectStream disconnectStream_fields clearTimeout_def ws_close_def)

theorem disconnectStream_closes_cancels_and_clears_witness:
  "reconnectTimer (initial\<lparr>reconnectTimer := Some 1,
       timers := [\<lparr>timer_id = 1, timer_session = ''A'', timer_delay = 1500\<rparr>]\<rparr>) = Some 1 \<and>
   timers (disconnectStream (initial\<lparr>reconnectTimer := Some 1,
       timers := [\<lparr>timer_id = 1, timer_session = ''A'', timer_delay = 1500\<rparr>]\<rparr>)) = [] \<and>
   socketRef (initial\<lparr>socketRef := Some 0,
       sockets := [\<lparr>ws_session = ''A'', readyState = OPEN, sent = []\<rparr>]\<rparr>) = Some 0 \<and>
   sockets (disconnectStream (initial\<lparr>socketRef := Some 0,
       sockets := [\<lparr>ws_session = ''A'', readyState = OPEN, sent = []\<rparr>]\<rparr>)) =
     [\<lparr>ws_session = ''A'', readyState = CLOSING, sent = []\<rparr>]"
  using disconnectStream_closes_cancels_and_clears
    [of "initial\<lparr>reconnectTimer := Some 1,
       timers := [\<lparr>timer_id = 1, timer_session = ''A'', timer_delay = 1500\<rparr>]\<rparr>" 1 0]
    disconnectStream_closes_cancels_and_clears
    [of "initial\<lparr>socketRef := Some 0,
       sockets := [\<lparr>ws_session = ''A'', readyState = OPEN, sent = []\<rparr>]\<rparr>" 1 0]
  by (simp add: initial_def disconnectStream_def Let_def clearTimeout_def ws_close_def)

text \<open>
  Claim C3 at \<open>stale_reconnect_run\<close>. The second close event overwrites the handle
  of the first timeout, which is still pending; \<open>closeSession\<close> cancels only the
  second. After the session is closed (\<open>sessionIdRef\<close> is empty, no handle is
  referenced) timeout 1 for session A is still pending, and when it fires it opens a new
  socket for the closed session.
\<close>

theorem stale_reconnect_fires_after_close:
  "session (run example_parse stale_reconnect_run initial) = Some (example_session ''A'' False) \<and>
   sessionIdRef (run example_parse stale_reconnect_run initial) = None \<and>
   reconnectTimer (run example_parse stale_reconnect_run initial) = None \<and>
   timers (run example_parse stale_reconnect_run initial) =
     [\<lparr>timer_id = 1, timer_session = ''A'', timer_delay = 1500\<rparr>] \<and>
   sockets (step example_parse (TimerFire 1) (run example_parse stale_reconnect_run initial)) =
     [\<lparr>ws_session = ''A'', readyState = CLOSED, sent = []\<rparr>,
      \<lparr>ws_session = ''A'', readyState = CLOSED, sent = []\<rparr>,
      \<lparr>ws_session = ''A'', readyState = CONNECTING, sent = []\<rparr>] \<and>
   socketRef (step example_parse (TimerFire 1) (run example_parse stale_reconnect_run initial)) =
     Some 2"
  by (simp add: stale_reconnect_run_def initial_def ensureSession_def closeSession_def Let_def
      connectStream_def toast_success_def stream_not_open_def onclose_def setTimeout_def
      set_readyState_def disconnectStream_def clearTimeout_def example_session_def
      example_metadata_def)

section \<open>Properties of the heartbeat\<close>

lemma silent_connectStream: "silent w \<Longrightarrow> silent (connectStream sid w)"
  by (simp add: silent_def connectStream_def)

lemma sent_list_update:
  assumes "list_all (\<lambda>s. sent s = []) ss"
  shows "list_all (\<lambda>s. sent s = []) (ss[i := (ss ! i)\<lparr>readyState := r\<rparr>])"
proof (cases "i < length ss")
  case True
  with assms have "sent (ss ! i) = []"
    by (simp add: list_all_length)
  with assms show ?thesis
    by (auto simp: list_all_iff dest!: set_update_subset_insert[THEN subsetD])
next
  case False
  then have "ss[i := (ss ! i)\<lparr>readyState := r\<rparr>] = ss"
    by (simp add: list_update_beyond)
  with assms show ?thesis
    by simp
qed

lemma silent_set_readyState: "silent w \<Longrightarrow> silent (set_readyState i r w)"
  by (simp add: silent_def set_readyState_def sent_list_update)

lemma silent_disconnectStream: "silent w \<Longrightarrow> silent (disconnectStream w)"
  by (simp add: silent_def disconnectStream_def Let_def ws_close_def sent_list_update
      split: option.splits)

lemma silent_ensureSession:
  "silent w \<Longrightarrow> silent (snd (ensureSession rendered created payload w))"
  by (auto simp: silent_def ensureSession_def Let_def connectStream_def toast_success_def
      toast_error_def split: option.splits sum.splits)

lemma silent_closeSession: "silent w \<Longrightarrow> silent (snd (closeSession close_result w))"
proof -
  assume s: "silent w"
  have frame: "silent (w'\<lparr>effects := e, isLoading := b\<rparr>) = silent w'" for w' e b
    by (simp add: silent_def)
  have frame2: "silent (w\<lparr>session := x, sessionIdRef := y\<rparr>) = silent w" for x y
    by (simp add: silent_def)
  show ?thesis
  proof (cases "session w")
    case None
    with s show ?thesis by (simp add: closeSession_def)
  next
    case (Some st)
    show ?thesis
    proof (cases close_result)
      case (Inl e)
      with Some s show ?thesis
        by (simp add: closeSession_rejected frame)
    next
      case (Inr c)
      with Some s show ?thesis
        by (simp add: closeSession_resolved frame silent_disconnectStream frame2)
    qed
  qed
qed

lemma silent_pushAudioFrame:
  "silent w \<Longrightarrow> silent (snd (pushAudioFrame nanoid32 waveform now submitted buffer sampleRate w))"
  by (simp add: silent_def pushAudioFrame_def Let_def split: option.splits)

lemma silent_onmessage: "silent w \<Longrightarrow> onmessage JSON_parse data w = Inr w' \<Longrightarrow> silent w'"
  by (auto simp: silent_def onmessage_def onmessage_try_def console_error_def
      split: sum.splits if_splits)

lemma silent_onclose: "silent w \<Longrightarrow> silent (onclose sid w)"
  by (simp add: silent_def onclose_def Let_def setTimeout_def split: prod.splits)

lemma silent_step:
  assumes "silent w"
  shows "silent (step JSON_parse a w)"
proof (cases a)
  case (SocketMessage i data)
  obtain w' where "onmessage JSON_parse data w = Inr w'"
    using onmessage_returns by blast
  with assms SocketMessage show ?thesis
    using silent_onmessage[of w JSON_parse data w'] by simp
next
  case (TimerFire t)
  have "silent (w\<lparr>timers := ts\<rparr>)" for ts
    using assms by (simp add: silent_def)
  with assms TimerFire show ?thesis
    by (simp add: silent_connectStream split: option.splits)
next
  case (SocketError i)
  with assms show ?thesis
    by (simp add: silent_def onerror_def console_error_def)
qed (use assms in \<open>simp_all add: silent_ensureSession silent_closeSession silent_pushAudioFrame
      silent_onclose silent_set_readyState silent_disconnectStream\<close>)

lemma silent_run: "silent w \<Longrightarrow> silent (run JSON_parse acts w)"
  by (induction acts arbitrary: w) (simp_all add: silent_step)

text \<open>
  Claim C8, as amended. The provider's event stream never pings: in every run no
  interval is registered and nothing is ever sent on any of its sockets. The
  consciousness stream is the one with the heartbeat: its effect registers an interval of
  30000 ms; while the interval is registered, a tick sends \<open>ping\<close> if the socket is
  open and does nothing if it is not; the clean-up clears the interval, after which a
  tick does nothing.
\<close>

theorem ping_only_on_the_consciousness_stream:
  "intervals (run JSON_parse acts initial) = [] \<and>
   list_all (\<lambda>s. sent s = []) (sockets (run JSON_parse acts initial)) \<and>
   pingInterval (visualizer_effect sid) = Some 30000 \<and>
   (pingInterval v \<noteq> None \<and> readyState (ws v) = OPEN \<longrightarrow>
      ping_tick v = v\<lparr>ws := (ws v)\<lparr>sent := sent (ws v) @ [''ping'']\<rparr>\<rparr>) \<and>
   (readyState (ws v) \<noteq> OPEN \<longrightarrow> ping_tick v = v) \<and>
   pingInterval (visualizer_cleanup v) = None \<and>
   ping_tick (visualizer_cleanup v) = visualizer_cleanup v"
proof -
  have "silent initial"
    by (simp add: silent_def initial_def)
  then have "silent (run JSON_parse acts initial)"
    by (rule silent_run)
  then have provider: "intervals (run JSON_parse acts initial) = [] \<and>
      list_all (\<lambda>s. sent s = []) (sockets (run JSON_parse acts initial))"
    by (simp add: silent_def)
  have tick: "pingInterval v \<noteq> None \<and> readyState (ws v) = OPEN \<longrightarrow>
      ping_tick v = v\<lparr>ws := (ws v)\<lparr>sent := sent (ws v) @ [''ping'']\<rparr>\<rparr>"
    by (auto simp: ping_tick_def)
  have idle: "readyState (ws v) \<noteq> OPEN \<longrightarrow> ping_tick v = v"
    by (simp add: ping_tick_def split: option.splits)
  have cleared: "pingInterval (visualizer_cleanup v) = None \<and>
      ping_tick (visualizer_cleanup v) = visualizer_cleanup v"
    by (simp add: visualizer_cleanup_def ping_tick_def Let_def)
  from provider tick idle cleared show ?thesis
    by (simp add: visualizer_effect_def)
qed

theorem ping_only_on_the_consciousness_stream_witness:
  "pingInterval (visualizer_onopen (visualizer_effect ''A'')) \<noteq> None \<and>
   readyState (ws (visualizer_onopen (visualizer_effect ''A''))) = OPEN \<and>
   sent (ws (ping_tick (ping_tick (visualizer_onopen (visualizer_effect ''A''))))) =
     [''ping'', ''ping''] \<and>
   readyState (ws (visualizer_effect ''A'')) \<noteq> OPEN \<and>
   sent (ws (ping_tick (visualizer_effect ''A''))) = [] \<and>
   list_all (\<lambda>s. sent s = [])
     (sockets (run example_parse
        [EnsureSession (Inr (example_session ''A'' True)) example_request, SocketOpen 0] initial))"
  using ping_only_on_the_consciousness_stream
    [of example_parse
        "[EnsureSession (Inr (example_session ''A'' True)) example_request, SocketOpen 0]"
        "''A''" "visualizer_onopen (visualizer_effect ''A'')"]
    ping_only_on_the_consciousness_stream
    [of example_parse "[]" "''A''" "visualizer_effect ''A''"]
    ping_only_on_the_consciousness_stream
    [of example_parse "[]" "''A''"
        "(visualizer_onopen (visualizer_effect ''A''))
           \<lparr>ws := (ws (visualizer_onopen (visualizer_effect ''A'')))\<lparr>sent := [''ping'']\<rparr>\<rparr>"]
  by (simp add: visualizer_onopen_def visualizer_effect_def)

theorem event_stream_sends_no_ping_counterexample:
  "readyState (sockets (run example_parse
      [EnsureSession (Inr (example_session ''A'' True)) example_request, SocketOpen 0,
       SocketMessage 0 ''good''] initial) ! 0) = OPEN \<and>
   intervals (run example_parse
      [EnsureSession (Inr (example_session ''A'' True)) example_request, SocketOpen 0,
       SocketMessage 0 ''good''] initial) = [] \<and>
   sent (sockets (run example_parse
      [EnsureSession (Inr (example_session ''A'' True)) example_request, SocketOpen 0,
       SocketMessage 0 ''good''] initial) ! 0) = []"
  by (simp add: initial_def ensureSession_def Let_def connectStream_def toast_success_def
      set_readyState_def onmessage_def onmessage_try_def example_parse_def isSessionEvent_example)

section \<open>Properties of live capture\<close>

lemma calls_stopCapture:
  "calls (stopCapture c) =
     calls c @
     (case processorRef c of Some p \<Rightarrow> [ProcessorDisconnect p] | None \<Rightarrow> []) @
     (case sourceRef c of Some s \<Rightarrow> [SourceDisconnect s] | None \<Rightarrow> []) @
     (case audioContextRef c of Some a \<Rightarrow> [ContextClose a] | None \<Rightarrow> []) @
     (case streamRef c of Some tracks \<Rightarrow> map TrackStop tracks | None \<Rightarrow> [])"
  by (simp add: stopCapture_def Let_def split: option.splits)

lemma refs_stopCapture:
  "processorRef (stopCapture c) = None \<and> sourceRef (stopCapture c) = None \<and>
   audioContextRef (stopCapture c) = None \<and> streamRef (stopCapture c) = None \<and>
   \<not> isCapturing (stopCapture c)"
  by (simp add: stopCapture_def Let_def split: option.splits)

text \<open>A start in which every step succeeds leaves all four refs set.\<close>

lemma startCapture_started:
  "startCapture (Some s) False (Inr tracks) (Inr a) (Inr src) (Inr p) c =
     c\<lparr>calls := calls c @
          [GetUserMedia tracks, NewAudioContext a, CreateMediaStreamSource src,
           CreateScriptProcessor p, SourceConnect src p, ProcessorConnect p a],
       audioContextRef := Some a, processorRef := Some p, sourceRef := Some src,
       streamRef := Some tracks, isCapturing := True,
       notices := notices c @ [ToastSuccess ''Live capture started'']\<rparr>"
  by (simp add: startCapture_def Let_def)

text \<open>
  After such a start, \<open>stopCapture\<close> disconnects the processor, disconnects the
  source, closes the context and stops the tracks, in that order, and the auto-stop
  effect does the same as soon as the session is missing or inactive, as it is after a
  successful \<open>closeSession\<close> that stored an inactive state.
\<close>

lemma stopCapture_after_start_in_order:
  "calls (stopCapture (startCapture (Some s) False (Inr tracks) (Inr a) (Inr src) (Inr p) c)) =
     calls (startCapture (Some s) False (Inr tracks) (Inr a) (Inr src) (Inr p) c) @
     [ProcessorDisconnect p, SourceDisconnect src, ContextClose a] @ map TrackStop tracks"
  by (simp add: calls_stopCapture) (simp add: startCapture_started)

lemma autoStopEffect_after_start:
  assumes "\<not> session_active sess"
  shows "autoStopEffect sess (startCapture (Some s) False (Inr tracks) (Inr a) (Inr src) (Inr p) c) =
           stopCapture (startCapture (Some s) False (Inr tracks) (Inr a) (Inr src) (Inr p) c)"
  using assms by (simp add: autoStopEffect_def startCapture_started)

lemma autoStopEffect_after_closeSession:
  assumes "session w = Some st" and "\<not> active closed_state" and "isCapturing c"
  shows "autoStopEffect (session (snd (closeSession (Inr closed_state) w))) c = stopCapture c"
proof -
  from assms(1) have "session (snd (closeSession (Inr closed_state) w)) = Some closed_state"
    by (simp add: closeSession_resolved session_disconnectStream)
  with assms(2,3) show ?thesis
    by (simp add: autoStopEffect_def session_active_def)
qed

lemma autoStopEffect_idle:
  assumes "\<not> isCapturing c \<or> session_active sess"
  shows "autoStopEffect sess c = c"
  using assms by (auto simp: autoStopEffect_def)

lemma live_tracks_after_start_and_stop:
  "live_tracks (stopCapture (startCapture (Some (example_session ''A'' True)) False
      (Inr [7, 8]) (Inr 1) (Inr 2) (Inr 3) idle)) = []"
  by (simp add: live_tracks_def calls_stopCapture) (simp add: startCapture_started idle_def)

text \<open>
  Claim C9 at a start that fails after the microphone was obtained: \<open>getUserMedia\<close>
  resolves with a stream of tracks 7 and 8 and \<open>new AudioContext\<close> throws. The
  \<open>catch\<close> block calls \<open>stopCapture\<close>, but the refs are still empty, so no call is
  made: neither track is stopped, both stay live, and no later \<open>stopCapture\<close> or
  auto-stop can stop them, since no ref holds the stream.
\<close>

theorem startCapture_failure_releases_nothing:
  "startCapture (Some (example_session ''A'' True)) False (Inr [7, 8])
      (Inl (Error ''NotSupportedError'')) (Inr 2) (Inr 3) idle =
     idle\<lparr>calls := [GetUserMedia [7, 8]],
          notices := [ConsoleError ''Failed to start live capture'',
                      ToastError ''Unable to access microphone.'']\<rparr> \<and>
   live_tracks (startCapture (Some (example_session ''A'' True)) False (Inr [7, 8])
      (Inl (Error ''NotSupportedError'')) (Inr 2) (Inr 3) idle) = [7, 8] \<and>
   streamRef (startCapture (Some (example_session ''A'' True)) False (Inr [7, 8])
      (Inl (Error ''NotSupportedError'')) (Inr 2) (Inr 3) idle) = None \<and>
   stopCapture (startCapture (Some (example_session ''A'' True)) False (Inr [7, 8])
      (Inl (Error ''NotSupportedError'')) (Inr 2) (Inr 3) idle) =
     startCapture (Some (example_session ''A'' True)) False (Inr [7, 8])
      (Inl (Error ''NotSupportedError'')) (Inr 2) (Inr 3) idle \<and>
   autoStopEffect None (startCapture (Some (example_session ''A'' True)) False (Inr [7, 8])
      (Inl (Error ''NotSupportedError'')) (Inr 2) (Inr 3) idle) =
     startCapture (Some (example_session ''A'' True)) False (Inr [7, 8])
      (Inl (Error ''NotSupportedError'')) (Inr 2) (Inr 3) idle"
  by (simp add: startCapture_def startCapture_catch_def stopCapture_def autoStopEffect_def
      live_tracks_def idle_def Let_def)

section \<open>Properties of the frame duration\<close>

text \<open>
  Claim C10. The frame \<open>pushAudioFrame\<close> submits has \<open>duration_ms\<close> equal to
  the number of samples divided by the sample rate, times 1000; for 4096 samples at
  22050 Hz that is 4096/22050*1000, between 185.7 and 185.8. The blocks
  \<open>onaudioprocess\<close> pushes have 4096 samples at 22050 Hz, so each has that duration,
  within a thousandth of 185.76.
\<close>

theorem duration_ms_of_submitted_frame:
  "(session w = Some s \<and> sampleRate \<noteq> 0 \<longrightarrow>
      (\<exists>frame.
         effects (snd (pushAudioFrame nanoid32 waveform now submitted buffer sampleRate w)) =
           effects w @ [ApiSubmitAudio (session_id (metadata s)) frame] \<and>
         duration_ms frame = real (length buffer) / sampleRate * 1000 \<and>
         (length buffer = 4096 \<and> sampleRate = 22050 \<longrightarrow>
            duration_ms frame = 4096 / 22050 * 1000 \<and>
            185.7 < duration_ms frame \<and> duration_ms frame < 185.8))) \<and>
   (session w = Some s \<and> length input = bufferSize \<longrightarrow>
      (\<exists>frame report.
         effects (onaudioprocess nanoid32 waveform now submitted input contextSampleRate w) =
           effects w @ [ApiSubmitAudio (session_id (metadata s)) frame] @ report \<and>
         duration_ms frame = 4096 / 22050 * 1000 \<and>
         \<bar>duration_ms frame - 185.76\<bar> < 0.001))"
proof -
  have general: "\<exists>frame.
         effects (snd (pushAudioFrame nanoid32 waveform now submitted buffer sampleRate w)) =
           effects w @ [ApiSubmitAudio (session_id (metadata s)) frame] \<and>
         duration_ms frame = real (length buffer) / sampleRate * 1000 \<and>
         (length buffer = 4096 \<and> sampleRate = 22050 \<longrightarrow>
            duration_ms frame = 4096 / 22050 * 1000 \<and>
            185.7 < duration_ms frame \<and> duration_ms frame < 185.8)"
    if "session w = Some s"
    using that by (simp add: pushAudioFrame_stored)
  have live: "\<exists>frame report.
         effects (onaudioprocess nanoid32 waveform now submitted input contextSampleRate w) =
           effects w @ [ApiSubmitAudio (session_id (metadata s)) frame] @ report \<and>
         duration_ms frame = 4096 / 22050 * 1000 \<and>
         \<bar>duration_ms frame - 185.76\<bar> < 0.001"
    if "session w = Some s" "length input = bufferSize"
    using that
    by (cases submitted)
      (simp_all add: onaudioprocess_def Let_def pushAudioFrame_stored toast_error_def
        console_error_def bufferSize_def contextSampleRate_def)
  from general live show ?thesis
    by blast
qed

theorem duration_ms_of_submitted_frame_witness:
  "session (initial\<lparr>session := Some (example_session ''A'' True)\<rparr>) =
     Some (example_session ''A'' True) \<and> (22050::real) \<noteq> 0 \<and>
   length (replicate 4096 (0::real)) = bufferSize \<and>
   effects (snd (pushAudioFrame ''x'' ''AAAA'' 0 (Inr example_ack) (replicate 4096 0) 22050
                   (initial\<lparr>session := Some (example_session ''A'' True)\<rparr>))) =
     [ApiSubmitAudio ''A''
        \<lparr>frame_session_id = ''A'', frame_id = ''frame_x'', sample_rate = 22050, channels = 1,
         duration_ms = 4096 / 22050 * 1000, waveform_base64 = ''AAAA'', timestamp_ms = 0\<rparr>]"
  using duration_ms_of_submitted_frame
    [of "initial\<lparr>session := Some (example_session ''A'' True)\<rparr>" "example_session ''A'' True"
        22050 "''x''" "''AAAA''" 0 "Inr example_ack" "replicate 4096 0" "replicate 4096 0"]
  by (simp add: initial_def pushAudioFrame_def Let_def bufferSize_def example_session_def
      example_metadata_def)

end
